theory Spec2Isabelle
  imports Complex_Main
begin

section \<open>Python values shared by the service and the monitoring client\<close>

text \<open>
  JSON documents, which are also the dictionaries the monitoring client builds.
  \<open>JNull\<close> is Python's \<open>None\<close>; an object keeps its keys in insertion order.
\<close>

datatype json =
    JNull
  | JBool bool
  | JInt int
  | JFloat real
  | JStr string
  | JList "json list"
  | JObj "(string \<times> json) list"

text \<open>
  Exceptions below \<open>Exception\<close>.  \<open>Raised msg\<close> is any exception a library call raises,
  with \<open>str(e) = msg\<close>; \<open>KeyError\<close> carries the \<open>repr\<close> of the missing key.
\<close>

datatype exn =
    KeyError string
  | TypeError string
  | ValueError string
  | ZeroDivisionError string
  | Raised string

fun str_exn :: "exn \<Rightarrow> string" where
  "str_exn (KeyError k) = k"
| "str_exn (TypeError m) = m"
| "str_exn (ValueError m) = m"
| "str_exn (ZeroDivisionError m) = m"
| "str_exn (Raised m) = m"

text \<open>\<open>repr\<close> of a prediction label: \<open>None\<close>, or the string in single quotes
  (labels hold no quote or escape characters).\<close>

fun repr_label :: "string option \<Rightarrow> string" where
  "repr_label None = ''None''"
| "repr_label (Some s) = [CHR 0x27] @ s @ [CHR 0x27]"

section \<open>The prediction service (main.py)\<close>

subsection \<open>Data model\<close>

record Data =
  age :: int
  workclass :: string
  fnlgt :: int
  education :: string
  education_num :: int
  marital_status :: string
  occupation :: string
  relationship :: string
  race :: string
  sex :: string
  capital_gain :: int
  capital_loss :: int
  hours_per_week :: int
  native_country :: string

record PredictionResponse =
  prediction :: string
  confidence :: real
  model_version :: string
  timestamp :: string

datatype http_exception = HTTPException (status_code: int) (detail: string)

datatype response = JSONResponse (status: int) (content: json)

text \<open>
  One reading of the clock per handled request: \<open>time.time()\<close> and
  \<open>datetime.utcnow().isoformat()\<close>.
\<close>

record clock =
  time_time :: real
  utcnow_isoformat :: string

text \<open>
  The modules \<open>ml.data\<close> and \<open>ml.model\<close> and the pickled scikit-learn objects are not
  part of the sources at hand; the service is parametrised over them.  Every call may
  raise.  \<open>'a\<close> is the type of a loaded artifact; a two-dimensional array is a list of
  rows; \<open>apply_label\<close> may return \<open>None\<close>.
\<close>

record 'a ml =
  load_model :: "string \<Rightarrow> exn + 'a"
  process_data :: "Data \<Rightarrow> string list \<Rightarrow> bool \<Rightarrow> 'a option \<Rightarrow> exn + real list list"
  predict_proba :: "'a option \<Rightarrow> real list list \<Rightarrow> exn + real list list"
  inference :: "'a option \<Rightarrow> real list list \<Rightarrow> exn + int list"
  apply_label :: "int list \<Rightarrow> exn + string option"

text \<open>Calls into the encoder and the classifier, recorded in the order they are made.\<close>

datatype work = ProcessData | PredictProba | Inference | ApplyLabel

text \<open>
  The module-level globals.  \<open>work_log\<close> is not a variable of the program: it records
  every call into the encoding and inference pipeline, so that "no work was done" can be
  stated.
\<close>

record 'a service_state =
  request_count :: int
  model_predictions :: "(string \<times> int) list"
  start_time :: real
  model_loaded :: bool
  encoder :: "'a option"
  model :: "'a option"
  work_log :: "work list"

subsection \<open>Start-up\<close>

definition encoder_path :: string where
  "encoder_path = ''./model/encoder.pkl''"

definition model_path :: string where
  "model_path = ''./model/model.pkl''"

definition globals :: "real \<Rightarrow> bool \<Rightarrow> 'a option \<Rightarrow> 'a option \<Rightarrow> 'a service_state" where
  "globals now loaded enc mdl =
     \<lparr>request_count = 0,
      model_predictions = [(''>50K'', 0), (''<=50K'', 0)],
      start_time = now,
      model_loaded = loaded,
      encoder = enc,
      model = mdl,
      work_log = []\<rparr>"

definition startup :: "'a ml \<Rightarrow> real \<Rightarrow> 'a service_state" where
  "startup lib now =
     (case load_model lib encoder_path of
        Inl e \<Rightarrow> globals now False None None
      | Inr enc \<Rightarrow>
          (case load_model lib model_path of
             Inl e \<Rightarrow> globals now False None None
           | Inr mdl \<Rightarrow> globals now True (Some enc) (Some mdl)))"

subsection \<open>Handlers\<close>

definition get_root :: json where
  "get_root = JObj
     [(''message'', JStr ''Welcome to the Census Income Prediction API''),
      (''version'', JStr ''1.0.0''),
      (''docs_url'', JStr ''/docs''),
      (''health_check'', JStr ''/v1/health''),
      (''metrics'', JStr ''/v1/metrics'')]"

text \<open>\<open>HealthResponse\<close> and \<open>MetricsResponse\<close> are given as the JSON objects they
  serialise to.\<close>

definition health_check :: "clock \<Rightarrow> 'a service_state \<Rightarrow> json" where
  "health_check clk st =
     (let current_time = utcnow_isoformat clk @ ''Z'';
          uptime = time_time clk - start_time st
      in JObj
        [(''status'', JStr (if model_loaded st then ''healthy'' else ''unhealthy'')),
         (''timestamp'', JStr current_time),
         (''model_loaded'', JBool (model_loaded st)),
         (''version'', JStr ''1.0.0''),
         (''uptime_seconds'', JFloat uptime)])"

definition get_metrics :: "clock \<Rightarrow> 'a service_state \<Rightarrow> json" where
  "get_metrics clk st =
     (let current_time = utcnow_isoformat clk @ ''Z'';
          uptime = time_time clk - start_time st;
          model_performance = JObj
            [(''precision'', JFloat (7369 / 10000)),
             (''recall'', JFloat (6294 / 10000)),
             (''f1_score'', JFloat (6789 / 10000))]
      in JObj
        [(''model_performance'', model_performance),
         (''request_count'', JInt (request_count st)),
         (''prediction_distribution'',
            JObj (map (\<lambda>(k, v). (k, JInt v)) (model_predictions st))),
         (''uptime_seconds'', JFloat uptime),
         (''last_updated'', JStr current_time)])"

definition get_model_info :: "'a service_state \<Rightarrow> http_exception + json" where
  "get_model_info st =
     (if \<not> model_loaded st then Inl (HTTPException 503 ''Model not loaded'')
      else Inr (JObj
        [(''model_type'', JStr ''RandomForestClassifier''),
         (''features'', JList (map JStr
            [''age'', ''workclass'', ''fnlgt'', ''education'', ''education-num'',
             ''marital-status'', ''occupation'', ''relationship'', ''race'', ''sex'',
             ''capital-gain'', ''capital-loss'', ''hours-per-week'', ''native-country''])),
         (''target_classes'', JList [JStr ''>50K'', JStr ''<=50K'']),
         (''model_version'', JStr ''v1.0.0''),
         (''trained_on'', JStr ''1994 US Census data'')]))"

definition cat_features :: "string list" where
  "cat_features =
     [''workclass'', ''education'', ''marital-status'', ''occupation'',
      ''relationship'', ''race'', ''sex'', ''native-country'']"

text \<open>\<open>d[k] += 1\<close> on a dictionary with string keys: \<open>None\<close> when the key is missing
  (Python raises \<open>KeyError\<close>), the dictionary with the entry updated in place otherwise.\<close>

fun dict_incr :: "(string \<times> int) list \<Rightarrow> string \<Rightarrow> (string \<times> int) list option" where
  "dict_incr [] k = None"
| "dict_incr ((k', v) # kvs) k =
     (if k' = k then Some ((k', v + 1) # kvs)
      else map_option (\<lambda>r. (k', v) # r) (dict_incr kvs k))"

text \<open>\<open>np.max\<close> over all entries of a two-dimensional array; it raises on an empty one.\<close>

definition np_max :: "real list list \<Rightarrow> exn + real" where
  "np_max rows =
     (case concat rows of
        [] \<Rightarrow> Inl (ValueError
          ''zero-size array to reduction operation maximum which has no identity'')
      | x # xs \<Rightarrow> Inr (fold max xs x))"

definition logged :: "work \<Rightarrow> 'a service_state \<Rightarrow> 'a service_state" where
  "logged w st = st\<lparr>work_log := work_log st @ [w]\<rparr>"

text \<open>The body of the \<open>try\<close> block of \<open>predict_income\<close>: the first exception ends it.\<close>

definition predict_try ::
  "'a ml \<Rightarrow> clock \<Rightarrow> Data \<Rightarrow> 'a service_state \<Rightarrow> (exn + PredictionResponse) \<times> 'a service_state"
where
  "predict_try lib clk data st =
     (let st1 = logged ProcessData st in
      case process_data lib data cat_features False (encoder st) of
        Inl e \<Rightarrow> (Inl e, st1)
      | Inr data_processed \<Rightarrow>
     (let st2 = logged PredictProba st1 in
      case predict_proba lib (model st) data_processed of
        Inl e \<Rightarrow> (Inl e, st2)
      | Inr prediction_proba \<Rightarrow>
     (let st3 = logged Inference st2 in
      case inference lib (model st) data_processed of
        Inl e \<Rightarrow> (Inl e, st3)
      | Inr pred \<Rightarrow>
     (let st4 = logged ApplyLabel st3 in
      case apply_label lib pred of
        Inl e \<Rightarrow> (Inl e, st4)
      | Inr prediction_label \<Rightarrow>
     (case np_max prediction_proba of
        Inl e \<Rightarrow> (Inl e, st4)
      | Inr conf \<Rightarrow>
     (case prediction_label of
        None \<Rightarrow> (Inl (KeyError (repr_label None)), st4)
      | Some label \<Rightarrow>
     (case dict_incr (model_predictions st4) label of
        None \<Rightarrow> (Inl (KeyError (repr_label (Some label))), st4)
      | Some counts \<Rightarrow>
          (Inr \<lparr>prediction = label,
                confidence = conf,
                model_version = ''v1.0.0'',
                timestamp = utcnow_isoformat clk @ ''Z''\<rparr>,
           st4\<lparr>model_predictions := counts\<rparr>))))))))"

definition predict_income ::
  "'a ml \<Rightarrow> clock \<Rightarrow> Data \<Rightarrow> 'a service_state \<Rightarrow>
     (http_exception + PredictionResponse) \<times> 'a service_state"
where
  "predict_income lib clk data st =
     (if \<not> model_loaded st then (Inl (HTTPException 503 ''Model not available''), st)
      else
        (case predict_try lib clk data st of
           (Inr r, st') \<Rightarrow> (Inr r, st')
         | (Inl e, st') \<Rightarrow>
             (Inl (HTTPException 500 (''Prediction failed: '' @ str_exn e)), st')))"

definition legacy_inference ::
  "'a ml \<Rightarrow> clock \<Rightarrow> Data \<Rightarrow> 'a service_state \<Rightarrow> response \<times> 'a service_state"
where
  "legacy_inference lib clk data st =
     (case predict_income lib clk data st of
        (Inr result, st') \<Rightarrow>
          (JSONResponse 200 (JObj [(''result'', JStr (prediction result))]), st')
      | (Inl e, st') \<Rightarrow>
          (JSONResponse (status_code e) (JObj [(''error'', JStr (detail e))]), st'))"

subsection \<open>Routing and the request middleware\<close>

text \<open>
  A request body either passes the validation of the \<open>Data\<close> model or is rejected by the
  framework with the list of validation errors.
\<close>

datatype body = Valid Data | Invalid "json list"

datatype request =
    GetRoot
  | GetHealth
  | GetMetrics
  | GetModelInfo
  | PostPredict body
  | PostData body
  | Unrouted

text \<open>What the framework sends when a handler raises \<open>HTTPException\<close>, when a body fails
  validation and when no route matches.\<close>

definition http_exception_response :: "http_exception \<Rightarrow> response" where
  "http_exception_response e =
     JSONResponse (status_code e) (JObj [(''detail'', JStr (detail e))])"

definition validation_error_response :: "json list \<Rightarrow> response" where
  "validation_error_response errs = JSONResponse 422 (JObj [(''detail'', JList errs)])"

definition not_found_response :: response where
  "not_found_response = JSONResponse 404 (JObj [(''detail'', JStr ''Not Found'')])"

definition jsonable_prediction :: "PredictionResponse \<Rightarrow> json" where
  "jsonable_prediction r = JObj
     [(''prediction'', JStr (prediction r)),
      (''confidence'', JFloat (confidence r)),
      (''model_version'', JStr (model_version r)),
      (''timestamp'', JStr (timestamp r))]"

fun call_next ::
  "'a ml \<Rightarrow> clock \<Rightarrow> request \<Rightarrow> 'a service_state \<Rightarrow> response \<times> 'a service_state"
where
  "call_next lib clk GetRoot st = (JSONResponse 200 get_root, st)"
| "call_next lib clk GetHealth st = (JSONResponse 200 (health_check clk st), st)"
| "call_next lib clk GetMetrics st = (JSONResponse 200 (get_metrics clk st), st)"
| "call_next lib clk GetModelInfo st =
     (case get_model_info st of
        Inl e \<Rightarrow> (http_exception_response e, st)
      | Inr j \<Rightarrow> (JSONResponse 200 j, st))"
| "call_next lib clk (PostPredict (Invalid errs)) st = (validation_error_response errs, st)"
| "call_next lib clk (PostPredict (Valid data)) st =
     (case predict_income lib clk data st of
        (Inl e, st') \<Rightarrow> (http_exception_response e, st')
      | (Inr r, st') \<Rightarrow> (JSONResponse 200 (jsonable_prediction r), st'))"
| "call_next lib clk (PostData (Invalid errs)) st = (validation_error_response errs, st)"
| "call_next lib clk (PostData (Valid data)) st = legacy_inference lib clk data st"
| "call_next lib clk Unrouted st = (not_found_response, st)"

definition log_requests ::
  "'a ml \<Rightarrow> clock \<Rightarrow> request \<Rightarrow> 'a service_state \<Rightarrow> response \<times> 'a service_state"
where
  "log_requests lib clk req st =
     call_next lib clk req (st\<lparr>request_count := request_count st + 1\<rparr>)"

text \<open>The service handling a sequence of requests, one after the other.\<close>

fun serve ::
  "'a ml \<Rightarrow> 'a service_state \<Rightarrow> (clock \<times> request) list \<Rightarrow> response list \<times> 'a service_state"
where
  "serve lib st [] = ([], st)"
| "serve lib st ((clk, req) # rest) =
     (case log_requests lib clk req st of
        (resp, st') \<Rightarrow> (case serve lib st' rest of (resps, st'') \<Rightarrow> (resp # resps, st'')))"

section \<open>The monitoring client (scripts/performance_monitor.py)\<close>

subsection \<open>Python operations on dictionaries and numbers\<close>

type_synonym dict = "(string \<times> json) list"

fun type_name :: "json \<Rightarrow> string" where
  "type_name JNull = ''NoneType''"
| "type_name (JBool b) = ''bool''"
| "type_name (JInt i) = ''int''"
| "type_name (JFloat x) = ''float''"
| "type_name (JStr s) = ''str''"
| "type_name (JList xs) = ''list''"
| "type_name (JObj d) = ''dict''"

definition quoted :: "string \<Rightarrow> string" where
  "quoted s = [CHR 0x27] @ s @ [CHR 0x27]"

text \<open>\<open>v[k]\<close> for a string key.\<close>

fun py_getitem :: "json \<Rightarrow> string \<Rightarrow> exn + json" where
  "py_getitem (JObj d) k =
     (case map_of d k of None \<Rightarrow> Inl (KeyError (quoted k)) | Some v \<Rightarrow> Inr v)"
| "py_getitem v k =
     Inl (TypeError (quoted (type_name v) @ '' object is not subscriptable''))"

text \<open>\<open>d.get(k, default)\<close> on a dictionary: the default only when the key is absent.\<close>

definition dict_get :: "dict \<Rightarrow> string \<Rightarrow> json \<Rightarrow> json" where
  "dict_get d k dflt = (case map_of d k of None \<Rightarrow> dflt | Some v \<Rightarrow> v)"

fun py_get :: "json \<Rightarrow> string \<Rightarrow> json \<Rightarrow> exn + json" where
  "py_get (JObj d) k dflt = Inr (dict_get d k dflt)"
| "py_get v k dflt =
     Inl (Raised (quoted (type_name v) @ '' object has no attribute '' @ quoted ''get''))"

text \<open>The number a value stands for in a comparison with a float, if it is one.\<close>

fun as_number :: "json \<Rightarrow> real option" where
  "as_number (JInt i) = Some (real_of_int i)"
| "as_number (JFloat x) = Some x"
| "as_number (JBool b) = Some (if b then 1 else 0)"
| "as_number v = None"

definition not_supported :: "string \<Rightarrow> json \<Rightarrow> exn" where
  "not_supported opr v =
     TypeError (quoted opr @ '' not supported between instances of '' @
       quoted (type_name v) @ '' and '' @ quoted ''float'')"

text \<open>\<open>v > c\<close> and \<open>v < c\<close> for a float literal \<open>c\<close>.\<close>

definition py_gt :: "json \<Rightarrow> real \<Rightarrow> exn + bool" where
  "py_gt v c = (case as_number v of None \<Rightarrow> Inl (not_supported ''>'' v) | Some x \<Rightarrow> Inr (x > c))"

definition py_lt :: "json \<Rightarrow> real \<Rightarrow> exn + bool" where
  "py_lt v c = (case as_number v of None \<Rightarrow> Inl (not_supported ''<'' v) | Some x \<Rightarrow> Inr (x < c))"

function str_nat :: "nat \<Rightarrow> string" where
  "str_nat n =
     (if n < 10 then [''0123456789'' ! n]
      else str_nat (n div 10) @ [''0123456789'' ! (n mod 10)])"
  by pat_completeness auto
termination
  by (relation "measure id") auto

definition str_int :: "int \<Rightarrow> string" where
  "str_int i = (if i < 0 then ''-'' @ str_nat (nat (- i)) else str_nat (nat i))"

text \<open>\<open>xs[-n:]\<close> for a positive \<open>n\<close>.\<close>

definition last_n :: "nat \<Rightarrow> 'a list \<Rightarrow> 'a list" where
  "last_n n xs = drop (length xs - n) xs"

definition mean :: "real list \<Rightarrow> real" where
  "mean xs = sum_list xs / real (length xs)"

definition median :: "real list \<Rightarrow> real" where
  "median xs =
     (let s = sort xs; n = length s
      in if n mod 2 = 1 then s ! (n div 2)
         else (s ! (n div 2 - 1) + s ! (n div 2)) / 2)"

subsection \<open>The monitor\<close>

text \<open>
  The outcome of one \<open>requests\<close> call: a \<open>RequestException\<close> with its message, or a
  response with its status code, its body (a JSON object) and the time the call took.
\<close>

datatype http_call =
    RequestException string
  | Returned int dict real

text \<open>What the network and the clock give the monitor in one cycle.  \<open>load_calls\<close> are
  the calls of the load test that completed, in the order they completed.\<close>

record observation =
  utcnow :: string
  health_call :: http_call
  prediction_call :: http_call
  metrics_call :: http_call
  load_calls :: "http_call list"
  load_total_time :: real

record APIMonitor =
  base_url :: string
  interval :: int
  metrics_history :: "dict list"
  running :: bool

definition rstrip_slash :: "string \<Rightarrow> string" where
  "rstrip_slash s = rev (dropWhile (\<lambda>c. c = CHR ''/'') (rev s))"

definition init_monitor :: "string \<Rightarrow> int \<Rightarrow> APIMonitor" where
  "init_monitor url ival =
     \<lparr>base_url = rstrip_slash url, interval = ival, metrics_history = [], running = False\<rparr>"

fun check_health :: "http_call \<Rightarrow> dict" where
  "check_health (Returned code data response_time) =
     (if code = 200 then
        [(''status'', JStr ''healthy''),
         (''response_time'', JFloat response_time),
         (''model_loaded'', dict_get data ''model_loaded'' (JBool False)),
         (''uptime_seconds'', dict_get data ''uptime_seconds'' (JInt 0))]
      else
        [(''status'', JStr ''unhealthy''),
         (''response_time'', JFloat response_time),
         (''error'', JStr (''HTTP '' @ str_int code))])"
| "check_health (RequestException e) =
     [(''status'', JStr ''error''),
      (''error'', JStr e),
      (''response_time'', JNull)]"

fun check_prediction_performance :: "http_call \<Rightarrow> dict" where
  "check_prediction_performance (Returned code data response_time) =
     (if code = 200 then
        [(''status'', JStr ''success''),
         (''response_time'', JFloat response_time),
         (''prediction'', dict_get data ''prediction'' JNull),
         (''confidence'', dict_get data ''confidence'' JNull)]
      else
        [(''status'', JStr ''error''),
         (''response_time'', JFloat response_time),
         (''error'', JStr (''HTTP '' @ str_int code))])"
| "check_prediction_performance (RequestException e) =
     [(''status'', JStr ''error''),
      (''error'', JStr e),
      (''response_time'', JNull)]"

fun get_api_metrics :: "http_call \<Rightarrow> dict" where
  "get_api_metrics (Returned code data response_time) =
     (if code = 200 then data else [(''error'', JStr (''HTTP '' @ str_int code))])"
| "get_api_metrics (RequestException e) = [(''error'', JStr e)]"

text \<open>The response times of the results whose \<open>response_time\<close> is not \<open>None\<close>; the
  results are those of \<open>check_prediction_performance\<close>, whose times are floats.\<close>

definition response_times :: "dict list \<Rightarrow> real list" where
  "response_times results =
     List.map_filter
       (\<lambda>r. case dict_get r ''response_time'' JNull of JFloat x \<Rightarrow> Some x | _ \<Rightarrow> None)
       results"

definition optional :: "real list \<Rightarrow> (real list \<Rightarrow> real) \<Rightarrow> json" where
  "optional xs f = (if xs \<noteq> [] then JFloat (f xs) else JNull)"

definition run_load_test :: "int \<Rightarrow> http_call list \<Rightarrow> real \<Rightarrow> exn + dict" where
  "run_load_test num_requests calls total_time =
     (let results = map check_prediction_performance calls;
          successful_requests =
            int (length (filter (\<lambda>r. map_of r ''status'' = Some (JStr ''success'')) results));
          times = response_times results
      in if num_requests = 0 then Inl (ZeroDivisionError ''division by zero'')
         else Inr
           [(''total_requests'', JInt num_requests),
            (''successful_requests'', JInt successful_requests),
            (''success_rate'',
               JFloat (real_of_int successful_requests / real_of_int num_requests)),
            (''total_time'', JFloat total_time),
            (''avg_response_time'', optional times mean),
            (''min_response_time'', optional times (\<lambda>xs. fold min (tl xs) (hd xs))),
            (''max_response_time'', optional times (\<lambda>xs. fold max (tl xs) (hd xs))),
            (''median_response_time'', optional times median)])"

text \<open>The dictionary \<open>metrics\<close> that \<open>collect_metrics\<close> builds in one cycle.\<close>

definition cycle_metrics :: "observation \<Rightarrow> exn + dict" where
  "cycle_metrics ob =
     (let health = check_health (health_call ob);
          prediction' = check_prediction_performance (prediction_call ob);
          api_metrics = get_api_metrics (metrics_call ob)
      in case run_load_test 5 (load_calls ob) (load_total_time ob) of
           Inl e \<Rightarrow> Inl e
         | Inr load_test \<Rightarrow> Inr
             [(''timestamp'', JStr (utcnow ob)),
              (''health'', JObj health),
              (''prediction'', JObj prediction'),
              (''api_metrics'', JObj api_metrics),
              (''load_test'', JObj load_test)])"

definition collect_metrics :: "APIMonitor \<Rightarrow> observation \<Rightarrow> exn + dict \<times> APIMonitor" where
  "collect_metrics self ob =
     (case cycle_metrics ob of
        Inl e \<Rightarrow> Inl e
      | Inr metrics \<Rightarrow>
          (let appended = metrics_history self @ [metrics];
               kept = (if length appended > 100 then last_n 100 appended else appended)
           in Inr (metrics, self\<lparr>metrics_history := kept\<rparr>)))"

text \<open>Calling \<open>collect_metrics\<close> once per observation.\<close>

fun collect_cycles :: "APIMonitor \<Rightarrow> observation list \<Rightarrow> exn + APIMonitor" where
  "collect_cycles self [] = Inr self"
| "collect_cycles self (ob # obs) =
     (case collect_metrics self ob of
        Inl e \<Rightarrow> Inl e
      | Inr (metrics, self') \<Rightarrow> collect_cycles self' obs)"

text \<open>An alert, with the value its message formats.\<close>

datatype alert =
    ApiHealth json
  | SlowHealthResponse json
  | SlowPredictionResponse json
  | LowSuccessRate json

definition check_alerts :: "json \<Rightarrow> exn + alert list" where
  "check_alerts metrics =
     (case py_getitem metrics ''health'' of Inl e \<Rightarrow> Inl e | Inr health \<Rightarrow>
     (case py_getitem health ''status'' of Inl e \<Rightarrow> Inl e | Inr health_status \<Rightarrow>
     (let alerts1 = (if health_status \<noteq> JStr ''healthy'' then [ApiHealth health_status] else [])
      in
     (case py_get health ''response_time'' (JInt 0) of Inl e \<Rightarrow> Inl e | Inr health_time \<Rightarrow>
     (case py_gt health_time 5 of Inl e \<Rightarrow> Inl e | Inr slow_health \<Rightarrow>
     (let alerts2 = alerts1 @ (if slow_health then [SlowHealthResponse health_time] else [])
      in
     (case py_getitem metrics ''prediction'' of Inl e \<Rightarrow> Inl e | Inr prediction' \<Rightarrow>
     (case py_get prediction' ''response_time'' (JInt 0) of Inl e \<Rightarrow> Inl e | Inr pred_time \<Rightarrow>
     (case py_gt pred_time 2 of Inl e \<Rightarrow> Inl e | Inr slow_pred \<Rightarrow>
     (let alerts3 = alerts2 @ (if slow_pred then [SlowPredictionResponse pred_time] else [])
      in
     (case py_getitem metrics ''load_test'' of Inl e \<Rightarrow> Inl e | Inr load_test \<Rightarrow>
     (case py_getitem load_test ''success_rate'' of Inl e \<Rightarrow> Inl e | Inr success_rate \<Rightarrow>
     (case py_lt success_rate (8 / 10) of Inl e \<Rightarrow> Inl e | Inr low \<Rightarrow>
        Inr (alerts3 @ (if low then [LowSuccessRate success_rate] else [])))))))))))))))"

text \<open>The three values the status line of a cycle reads.\<close>

definition status_line :: "json \<Rightarrow> exn + json \<times> json \<times> json" where
  "status_line metrics =
     (case py_getitem metrics ''health'' of Inl e \<Rightarrow> Inl e | Inr health \<Rightarrow>
     (case py_getitem health ''status'' of Inl e \<Rightarrow> Inl e | Inr health_status \<Rightarrow>
     (case py_getitem metrics ''prediction'' of Inl e \<Rightarrow> Inl e | Inr prediction' \<Rightarrow>
     (case py_getitem prediction' ''status'' of Inl e \<Rightarrow> Inl e | Inr pred_status \<Rightarrow>
     (case py_getitem metrics ''load_test'' of Inl e \<Rightarrow> Inl e | Inr load_test \<Rightarrow>
     (case py_getitem load_test ''success_rate'' of Inl e \<Rightarrow> Inl e | Inr success_rate \<Rightarrow>
        Inr (health_status, pred_status, success_rate)))))))"

text \<open>
  How the loop of \<open>start_monitoring\<close> ends: by the \<open>KeyboardInterrupt\<close> it catches, by
  \<open>running\<close> having been cleared, or by an exception it does not catch.
\<close>

datatype ending = Interrupted | Stopped | Uncaught exn

text \<open>
  The \<open>while\<close> loop, one iteration per observation; the interrupt arrives during the
  sleep that follows the last observed cycle.  The result also counts the cycles that
  ran to their end.
\<close>

fun monitoring_loop :: "APIMonitor \<Rightarrow> observation list \<Rightarrow> ending \<times> nat \<times> APIMonitor" where
  "monitoring_loop self [] = (Interrupted, 0, self)"
| "monitoring_loop self (ob # obs) =
     (if \<not> running self then (Stopped, 0, self)
      else
        case collect_metrics self ob of
          Inl e \<Rightarrow> (Uncaught e, 0, self)
        | Inr (metrics, self') \<Rightarrow>
            (case status_line (JObj metrics) of
               Inl e \<Rightarrow> (Uncaught e, 0, self')
             | Inr line \<Rightarrow>
                 (case check_alerts (JObj metrics) of
                    Inl e \<Rightarrow> (Uncaught e, 0, self')
                  | Inr alerts \<Rightarrow>
                      (case monitoring_loop self' obs of
                         (how, n, self'') \<Rightarrow> (how, Suc n, self'')))))"

text \<open>\<open>start_monitoring\<close>: the loop, then the \<open>finally\<close> block, which clears \<open>running\<close>
  and saves the history (the third component is what \<open>save_metrics\<close> writes).\<close>

definition start_monitoring ::
  "APIMonitor \<Rightarrow> observation list \<Rightarrow> ending \<times> nat \<times> dict list \<times> APIMonitor"
where
  "start_monitoring self obs =
     (case monitoring_loop (self\<lparr>running := True\<rparr>) obs of
        (how, n, self') \<Rightarrow>
          (how, n, metrics_history self', self'\<lparr>running := False\<rparr>))"

section \<open>Observing a run\<close>

text \<open>A field of the JSON object a response carries.\<close>

definition response_field :: "string \<Rightarrow> response \<Rightarrow> json option" where
  "response_field k resp = (case content resp of JObj d \<Rightarrow> map_of d k | _ \<Rightarrow> None)"

text \<open>What a caller compares between two answers of the prediction route: the status,
  the label and the confidence (the timestamp differs from call to call).\<close>

definition predict_view :: "response \<Rightarrow> int \<times> json option \<times> json option" where
  "predict_view resp =
     (status resp, response_field ''prediction'' resp, response_field ''confidence'' resp)"

fun is_prediction :: "request \<Rightarrow> bool" where
  "is_prediction (PostPredict b) = True"
| "is_prediction (PostData b) = True"
| "is_prediction req = False"

text \<open>The number of prediction requests answered with 200, and the number of requests of
  any kind answered with another status.\<close>

definition successful_predictions :: "(clock \<times> request) list \<Rightarrow> response list \<Rightarrow> nat" where
  "successful_predictions reqs resps =
     length (filter (\<lambda>(cr, resp). is_prediction (snd cr) \<and> status resp = 200) (zip reqs resps))"

definition failed_requests :: "response list \<Rightarrow> nat" where
  "failed_requests resps = length (filter (\<lambda>resp. status resp \<noteq> 200) resps)"

text \<open>\<open>sum(model_predictions.values())\<close>\<close>

definition distribution_total :: "'a service_state \<Rightarrow> int" where
  "distribution_total st = sum_list (map snd (model_predictions st))"

text \<open>
  The contract of the classifier at one record: when the record is encoded and the
  classifier returns its class probabilities, every one of them lies in \<open>[0, 1]\<close>.
\<close>

definition probabilities_in_range :: "'a ml \<Rightarrow> Data \<Rightarrow> 'a service_state \<Rightarrow> bool" where
  "probabilities_in_range lib data st =
     (case process_data lib data cat_features False (encoder st) of
        Inl e \<Rightarrow> True
      | Inr X \<Rightarrow>
          (case predict_proba lib (model st) X of
             Inl e \<Rightarrow> True
           | Inr P \<Rightarrow> list_all (\<lambda>p. 0 \<le> p \<and> p \<le> 1) (concat P)))"

section \<open>Concrete inputs\<close>

text \<open>A stand-in for the encoder and the classifier: every artifact loads, the encoding is
  the age, the class probabilities are fixed.\<close>

definition stub_ml :: "nat ml" where
  "stub_ml =
     \<lparr>load_model = (\<lambda>path. Inr (length path)),
      process_data = (\<lambda>d cats training enc. Inr [[real_of_int (age d)]]),
      predict_proba = (\<lambda>m X. Inr [[1 / 4, 3 / 4]]),
      inference = (\<lambda>m X. Inr [1]),
      apply_label = (\<lambda>p. Inr (if p = [1] then Some ''>50K''
                               else if p = [0] then Some ''<=50K'' else None))\<rparr>"

text \<open>The same, with no model file to load.\<close>

definition missing_model_ml :: "nat ml" where
  "missing_model_ml =
     stub_ml\<lparr>load_model :=
       (\<lambda>path. if path = model_path then Inl (Raised ''No such file or directory'')
                else Inr (length path))\<rparr>"

text \<open>The same, with a classifier that raises on every record.\<close>

definition failing_ml :: "nat ml" where
  "failing_ml = stub_ml\<lparr>inference := (\<lambda>m X. Inl (Raised ''shape mismatch''))\<rparr>"

definition example_record :: Data where
  "example_record =
     \<lparr>age = 37, workclass = ''Private'', fnlgt = 178356, education = ''HS-grad'',
      education_num = 10, marital_status = ''Married-civ-spouse'',
      occupation = ''Prof-specialty'', relationship = ''Husband'', race = ''White'',
      sex = ''Male'', capital_gain = 0, capital_loss = 0, hours_per_week = 40,
      native_country = ''United-States''\<rparr>"

definition noon :: clock where
  "noon = \<lparr>time_time = 43200, utcnow_isoformat = ''2024-01-01T12:00:00''\<rparr>"

text \<open>A monitoring cycle during which the service cannot be reached: every call of the
  cycle fails with a connection error.\<close>

definition server_down :: observation where
  "server_down =
     \<lparr>utcnow = ''2024-01-01T12:00:00'',
      health_call = RequestException ''Connection refused'',
      prediction_call = RequestException ''Connection refused'',
      metrics_call = RequestException ''Connection refused'',
      load_calls = replicate 5 (RequestException ''Connection refused''),
      load_total_time = 1 / 100\<rparr>"

text \<open>A cycle during which the service is healthy and answers fast.\<close>

definition server_up :: observation where
  "server_up =
     \<lparr>utcnow = ''2024-01-01T12:01:00'',
      health_call = Returned 200 [(''model_loaded'', JBool True)] (1 / 100),
      prediction_call = Returned 200 [(''prediction'', JStr ''>50K'')] (1 / 50),
      metrics_call = Returned 200 [(''request_count'', JInt 3)] (1 / 100),
      load_calls = replicate 5 (Returned 200 [(''prediction'', JStr ''>50K'')] (1 / 50)),
      load_total_time = 1 / 10\<rparr>"

section \<open>Properties of the prediction service\<close>

subsection \<open>The prediction pipeline, case by case\<close>

lemma dict_incr_sum:
  "dict_incr d k = Some d' \<Longrightarrow> sum_list (map snd d') = sum_list (map snd d) + 1"
  by (induction d arbitrary: d') (auto split: if_splits)

lemma dict_incr_keys:
  "dict_incr d k = Some d' \<Longrightarrow> map fst d' = map fst d"
  by (induction d arbitrary: d') (auto split: if_splits)

lemma dict_incr_None_iff:
  "dict_incr d k = None \<longleftrightarrow> k \<notin> set (map fst d)"
  by (induction d) (auto split: if_splits)

lemma np_max_Inr:
  assumes "np_max P = Inr c"
  shows "concat P \<noteq> [] \<and> c = Max (set (concat P))"
proof (cases "concat P")
  case Nil
  with assms show ?thesis by (simp add: np_max_def)
next
  case (Cons x xs)
  then have "Max (set (concat P)) = fold max xs x"
    by (simp only: Max.set_eq_fold)
  with Cons assms show ?thesis by (simp add: np_max_def)
qed

lemma predict_try_cases:
  obtains (fail) e ws where
      "predict_try lib clk d st = (Inl e, st\<lparr>work_log := work_log st @ ws\<rparr>)"
      "ws \<noteq> []"
  | (ok) X P y l c counts where
      "process_data lib d cat_features False (encoder st) = Inr X"
      "predict_proba lib (model st) X = Inr P"
      "inference lib (model st) X = Inr y"
      "apply_label lib y = Inr (Some l)"
      "np_max P = Inr c"
      "dict_incr (model_predictions st) l = Some counts"
      "predict_try lib clk d st =
         (Inr \<lparr>prediction = l, confidence = c, model_version = ''v1.0.0'',
               timestamp = utcnow_isoformat clk @ ''Z''\<rparr>,
          st\<lparr>work_log := work_log st @ [ProcessData, PredictProba, Inference, ApplyLabel],
             model_predictions := counts\<rparr>)"
proof (cases "process_data lib d cat_features False (encoder st)")
  case (Inl e)
  then have "predict_try lib clk d st = (Inl e, st\<lparr>work_log := work_log st @ [ProcessData]\<rparr>)"
    by (simp add: predict_try_def logged_def)
  then show ?thesis using fail by blast
next
  case X: (Inr X)
  show ?thesis
  proof (cases "predict_proba lib (model st) X")
    case (Inl e)
    with X have "predict_try lib clk d st =
        (Inl e, st\<lparr>work_log := work_log st @ [ProcessData, PredictProba]\<rparr>)"
      by (simp add: predict_try_def logged_def)
    then show ?thesis using fail by blast
  next
    case P: (Inr P)
    show ?thesis
    proof (cases "inference lib (model st) X")
      case (Inl e)
      with X P have "predict_try lib clk d st =
          (Inl e, st\<lparr>work_log := work_log st @ [ProcessData, PredictProba, Inference]\<rparr>)"
        by (simp add: predict_try_def logged_def)
      then show ?thesis using fail by blast
    next
      case y: (Inr y)
      let ?st4 = "st\<lparr>work_log := work_log st @ [ProcessData, PredictProba, Inference, ApplyLabel]\<rparr>"
      show ?thesis
      proof (cases "apply_label lib y")
        case (Inl e)
        with X P y have "predict_try lib clk d st = (Inl e, ?st4)"
          by (simp add: predict_try_def logged_def)
        then show ?thesis using fail by blast
      next
        case lab: (Inr lab)
        show ?thesis
        proof (cases "np_max P")
          case (Inl e)
          with X P y lab have "predict_try lib clk d st = (Inl e, ?st4)"
            by (simp add: predict_try_def logged_def)
          then show ?thesis using fail by blast
        next
          case c: (Inr c)
          show ?thesis
          proof (cases lab)
            case None
            with X P y lab c have "predict_try lib clk d st = (Inl (KeyError (repr_label None)), ?st4)"
              by (simp add: predict_try_def logged_def)
            then show ?thesis using fail by blast
          next
            case (Some l)
            show ?thesis
            proof (cases "dict_incr (model_predictions st) l")
              case None
              with X P y lab c Some have
                "predict_try lib clk d st = (Inl (KeyError (repr_label (Some l))), ?st4)"
                by (simp add: predict_try_def logged_def)
              then show ?thesis using fail by blast
            next
              case counts: (Some counts)
              with X P y lab c Some have
                "predict_try lib clk d st =
                  (Inr \<lparr>prediction = l, confidence = c, model_version = ''v1.0.0'',
                        timestamp = utcnow_isoformat clk @ ''Z''\<rparr>,
                   ?st4\<lparr>model_predictions := counts\<rparr>)"
                by (simp add: predict_try_def logged_def)
              with X P y lab c Some counts show ?thesis using ok by blast
            qed
          qed
        qed
      qed
    qed
  qed
qed



lemma predict_income_cases:
  obtains (unavailable)
      "\<not> model_loaded st"
      "predict_income lib clk d st = (Inl (HTTPException 503 ''Model not available''), st)"
  | (failed) e ws where
      "model_loaded st"
      "predict_income lib clk d st =
         (Inl (HTTPException 500 (''Prediction failed: '' @ str_exn e)),
          st\<lparr>work_log := work_log st @ ws\<rparr>)"
  | (ok) X P l c counts where
      "model_loaded st"
      "process_data lib d cat_features False (encoder st) = Inr X"
      "predict_proba lib (model st) X = Inr P"
      "np_max P = Inr c"
      "dict_incr (model_predictions st) l = Some counts"
      "predict_income lib clk d st =
         (Inr \<lparr>prediction = l, confidence = c, model_version = ''v1.0.0'',
               timestamp = utcnow_isoformat clk @ ''Z''\<rparr>,
          st\<lparr>work_log := work_log st @ [ProcessData, PredictProba, Inference, ApplyLabel],
             model_predictions := counts\<rparr>)"
proof (cases "model_loaded st")
  case False
  then show ?thesis using unavailable by (simp add: predict_income_def)
next
  case True
  show ?thesis
  proof (cases rule: predict_try_cases[where st = st and lib = lib and clk = clk and d = d])
    case (fail e ws)
    with True show ?thesis using failed by (simp add: predict_income_def)
  next
    case (ok X P y l c counts)
    with True show ?thesis using that(3) by (simp add: predict_income_def)
  qed
qed

lemma log_requests_step:
  assumes "log_requests lib clk req st = (resp, st')"
  shows "request_count st' = request_count st + 1"
    and "distribution_total st' =
           distribution_total st + (if is_prediction req \<and> status resp = 200 then 1 else 0)"
    and "model_loaded st' = model_loaded st"
    and "encoder st' = encoder st"
    and "model st' = model st"
    and "start_time st' = start_time st"
    and "map fst (model_predictions st') = map fst (model_predictions st)"
    and "\<not> model_loaded st \<Longrightarrow> work_log st' = work_log st"
proof -
  let ?st1 = "st\<lparr>request_count := request_count st + 1\<rparr>"
  have step: "call_next lib clk req ?st1 = (resp, st')"
    using assms by (simp add: log_requests_def)
  have all: "request_count st' = request_count st + 1 \<and>
    distribution_total st' =
      distribution_total st + (if is_prediction req \<and> status resp = 200 then 1 else 0) \<and>
    model_loaded st' = model_loaded st \<and> encoder st' = encoder st \<and> model st' = model st \<and>
    start_time st' = start_time st \<and>
    map fst (model_predictions st') = map fst (model_predictions st) \<and>
    (\<not> model_loaded st \<longrightarrow> work_log st' = work_log st)"
  proof (cases req)
    case GetRoot
    with step show ?thesis by (auto simp: distribution_total_def)
  next
    case GetHealth
    with step show ?thesis by (auto simp: distribution_total_def)
  next
    case GetMetrics
    with step show ?thesis by (auto simp: distribution_total_def)
  next
    case GetModelInfo
    with step show ?thesis
      by (auto simp: distribution_total_def split: sum.splits)
  next
    case Unrouted
    with step show ?thesis by (auto simp: distribution_total_def)
  next
    case (PostPredict b)
    show ?thesis
    proof (cases b)
      case (Invalid errs)
      with PostPredict step show ?thesis
        by (auto simp: distribution_total_def validation_error_response_def)
    next
      case (Valid d)
      show ?thesis
      proof (cases rule: predict_income_cases[where st = ?st1 and lib = lib and clk = clk and d = d])
        case unavailable
        with PostPredict Valid step show ?thesis
          by (auto simp: distribution_total_def http_exception_response_def)
      next
        case (failed e ws)
        with PostPredict Valid step show ?thesis
          by (auto simp: distribution_total_def http_exception_response_def)
      next
        case (ok X P l c counts)
        with PostPredict Valid step show ?thesis
          by (auto simp: distribution_total_def dict_incr_sum dict_incr_keys)
      qed
    qed
  next
    case (PostData b)
    show ?thesis
    proof (cases b)
      case (Invalid errs)
      with PostData step show ?thesis
        by (auto simp: distribution_total_def validation_error_response_def)
    next
      case (Valid d)
      show ?thesis
      proof (cases rule: predict_income_cases[where st = ?st1 and lib = lib and clk = clk and d = d])
        case unavailable
        with PostData Valid step show ?thesis
          by (auto simp: distribution_total_def legacy_inference_def)
      next
        case (failed e ws)
        with PostData Valid step show ?thesis
          by (auto simp: distribution_total_def legacy_inference_def)
      next
        case (ok X P l c counts)
        with PostData Valid step show ?thesis
          by (auto simp: distribution_total_def legacy_inference_def dict_incr_sum dict_incr_keys)
      qed
    qed
  qed
  then show "request_count st' = request_count st + 1"
    and "distribution_total st' =
           distribution_total st + (if is_prediction req \<and> status resp = 200 then 1 else 0)"
    and "model_loaded st' = model_loaded st"
    and "encoder st' = encoder st"
    and "model st' = model st"
    and "start_time st' = start_time st"
    and "map fst (model_predictions st') = map fst (model_predictions st)"
    and "\<not> model_loaded st \<Longrightarrow> work_log st' = work_log st"
    by simp_all
qed

subsection \<open>Runs of the service\<close>

lemma successful_predictions_Cons:
  "successful_predictions ((clk, req) # reqs) (resp # resps) =
     (if is_prediction req \<and> status resp = 200 then 1 else 0) + successful_predictions reqs resps"
  by (simp add: successful_predictions_def)

lemma serve_run:
  "serve lib st reqs = (resps, st') \<Longrightarrow>
     length resps = length reqs \<and>
     request_count st' = request_count st + int (length reqs) \<and>
     distribution_total st' = distribution_total st + int (successful_predictions reqs resps) \<and>
     model_loaded st' = model_loaded st \<and> encoder st' = encoder st \<and> model st' = model st \<and>
     map fst (model_predictions st') = map fst (model_predictions st) \<and>
     (\<not> model_loaded st \<longrightarrow> work_log st' = work_log st)"
proof (induction reqs arbitrary: st resps st')
  case Nil
  then show ?case by (auto simp: successful_predictions_def)
next
  case (Cons cr reqs)
  obtain clk req where cr: "cr = (clk, req)" by (cases cr)
  obtain resp st1 where first: "log_requests lib clk req st = (resp, st1)"
    by (cases "log_requests lib clk req st")
  obtain rest st2 where others: "serve lib st1 reqs = (rest, st2)"
    by (cases "serve lib st1 reqs")
  from Cons.prems cr first others have res: "resps = resp # rest" "st' = st2"
    by simp_all
  note ih = Cons.IH [OF others]
  note one = log_requests_step [OF first]
  show ?case
    unfolding res cr successful_predictions_Cons
    using ih one by simp
qed

lemma successes_and_failures:
  "successful_predictions reqs resps + failed_requests resps \<le> length resps"
proof (induction resps arbitrary: reqs)
  case Nil
  then show ?case by (simp add: successful_predictions_def failed_requests_def)
next
  case (Cons resp resps)
  show ?case
  proof (cases reqs)
    case Nil
    then show ?thesis
      by (simp add: successful_predictions_def failed_requests_def le_SucI)
  next
    case (Cons cr rest)
    obtain clk req where "cr = (clk, req)" by (cases cr)
    with Cons Cons.IH [of rest] show ?thesis
      by (simp add: successful_predictions_Cons) (simp add: failed_requests_def)
  qed
qed

lemma startup_counters:
  "request_count (startup lib t0) = 0" "distribution_total (startup lib t0) = 0"
  "work_log (startup lib t0) = []"
  "map fst (model_predictions (startup lib t0)) = [''>50K'', ''<=50K'']"
  by (simp_all add: startup_def globals_def distribution_total_def split: sum.splits)

lemma startup_loaded:
  "model_loaded (startup lib t0) \<longleftrightarrow>
     \<not> isl (load_model lib encoder_path) \<and> \<not> isl (load_model lib model_path)"
  by (simp add: startup_def globals_def split: sum.splits)

text \<open>
  Claim C1.  Start the service and let it handle any sequence of requests.  Afterwards
  \<open>request_count\<close> is the number of requests handled, hence at least the number \<open>K\<close> of
  successful predictions plus the number \<open>M\<close> of failed requests, and the values of
  \<open>model_predictions\<close> sum to exactly \<open>K\<close>.
\<close>

theorem counters_after_run:
  "case serve lib (startup lib t0) reqs of
     (resps, st) \<Rightarrow>
       request_count st = int (length reqs) \<and>
       int (successful_predictions reqs resps + failed_requests resps) \<le> request_count st \<and>
       distribution_total st = int (successful_predictions reqs resps)"
proof -
  obtain resps st where run: "serve lib (startup lib t0) reqs = (resps, st)"
    by (cases "serve lib (startup lib t0) reqs")
  from serve_run [OF run] have
    len: "length resps = length reqs" and
    cnt: "request_count st = int (length reqs)" and
    tot: "distribution_total st = int (successful_predictions reqs resps)"
    by (simp_all add: startup_counters)
  from successes_and_failures [of reqs resps] len cnt
  have "int (successful_predictions reqs resps + failed_requests resps) \<le> request_count st"
    by simp
  with run cnt tot show ?thesis by simp
qed

text \<open>
  Claim C10.  After any sequence of completed requests, the \<open>request_count\<close> that
  \<open>GET /v1/metrics\<close> returns counts the metrics request itself: it is the number of
  requests completed before it plus one, which is strictly greater than that number.
\<close>

theorem metrics_counts_itself:
  "case serve lib (startup lib t0) reqs of
     (resps, st) \<Rightarrow>
       response_field ''request_count'' (fst (log_requests lib clk GetMetrics st)) =
         Some (JInt (int (length resps) + 1)) \<and>
       int (length resps) < int (length resps) + 1"
proof -
  obtain resps st where run: "serve lib (startup lib t0) reqs = (resps, st)"
    by (cases "serve lib (startup lib t0) reqs")
  from serve_run [OF run] have "request_count st = int (length resps)"
    by (simp add: startup_counters)
  with run show ?thesis
    by (simp add: log_requests_def response_field_def get_metrics_def)
qed

text \<open>
  Claim C5.  \<open>model_loaded\<close> is decided at start-up (both artifacts loaded or not) and no
  sequence of requests, failed predictions included, changes it: afterwards
  \<open>GET /v1/health\<close> answers 200 and reports the value and the status fixed at start-up.
\<close>

theorem health_fixed_at_startup:
  "case serve lib (startup lib t0) reqs of
     (resps, st) \<Rightarrow>
       model_loaded st = model_loaded (startup lib t0) \<and>
       model_loaded (startup lib t0) =
         (\<not> isl (load_model lib encoder_path) \<and> \<not> isl (load_model lib model_path)) \<and>
       status (fst (log_requests lib clk GetHealth st)) = 200 \<and>
       response_field ''model_loaded'' (fst (log_requests lib clk GetHealth st)) =
         Some (JBool (model_loaded (startup lib t0))) \<and>
       response_field ''status'' (fst (log_requests lib clk GetHealth st)) =
         Some (JStr (if model_loaded (startup lib t0) then ''healthy'' else ''unhealthy''))"
proof -
  obtain resps st where run: "serve lib (startup lib t0) reqs = (resps, st)"
    by (cases "serve lib (startup lib t0) reqs")
  from serve_run [OF run] have "model_loaded st = model_loaded (startup lib t0)"
    by simp
  with run startup_loaded [of lib t0] show ?thesis
    by (simp add: log_requests_def response_field_def health_check_def)
qed

text \<open>
  Claim C3.  When an artifact fails to load at start-up, then after any sequence of
  requests \<open>GET /v1/health\<close> reports \<open>model_loaded = false\<close>, \<open>POST /v1/predict\<close> answers
  503 and changes nothing but the request counter, and no call into the encoder or the
  classifier has ever been made.
\<close>

theorem unavailable_when_load_fails:
  assumes "isl (load_model lib encoder_path) \<or> isl (load_model lib model_path)"
  shows "case serve lib (startup lib t0) reqs of
     (resps, st) \<Rightarrow>
       response_field ''model_loaded'' (fst (log_requests lib clk GetHealth st)) =
         Some (JBool False) \<and>
       log_requests lib clk (PostPredict (Valid d)) st =
         (JSONResponse 503 (JObj [(''detail'', JStr ''Model not available'')]),
          st\<lparr>request_count := request_count st + 1\<rparr>) \<and>
       work_log st = []"
proof -
  obtain resps st where run: "serve lib (startup lib t0) reqs = (resps, st)"
    by (cases "serve lib (startup lib t0) reqs")
  from assms have down: "\<not> model_loaded (startup lib t0)"
    by (simp add: startup_loaded)
  with serve_run [OF run] have "\<not> model_loaded st" "work_log st = []"
    by (simp_all add: startup_counters)
  with run show ?thesis
    by (simp add: log_requests_def response_field_def health_check_def predict_income_def
        http_exception_response_def)
qed

text \<open>The claim at a start-up where the model file is missing.\<close>

theorem unavailable_when_load_fails_witness:
  "(isl (load_model missing_model_ml encoder_path) \<or> isl (load_model missing_model_ml model_path)) \<and>
   (case serve missing_model_ml (startup missing_model_ml 0)
           [(noon, PostPredict (Valid example_record)), (noon, PostData (Valid example_record))] of
     (resps, st) \<Rightarrow>
       response_field ''model_loaded'' (fst (log_requests missing_model_ml noon GetHealth st)) =
         Some (JBool False) \<and>
       log_requests missing_model_ml noon (PostPredict (Valid example_record)) st =
         (JSONResponse 503 (JObj [(''detail'', JStr ''Model not available'')]),
          st\<lparr>request_count := request_count st + 1\<rparr>) \<and>
       work_log st = [])"
  using unavailable_when_load_fails [where lib = missing_model_ml and ?t0.0 = 0 and
      reqs = "[(noon, PostPredict (Valid example_record)), (noon, PostData (Valid example_record))]"
      and clk = noon and d = example_record]
  by (simp add: missing_model_ml_def stub_ml_def model_path_def encoder_path_def)

subsection \<open>The result of a prediction\<close>

text \<open>
  Claim C2.  In any state the started service reaches, with the artifacts loaded and a
  classifier whose class probabilities for the record lie in \<open>[0, 1]\<close>: a prediction that returns a
  result returns one of the labels \<open>>50K\<close> and \<open><=50K\<close> together with the maximum of the
  class probabilities the classifier gave for the encoded record, which lies in
  \<open>[0, 1]\<close>; the only other outcome is the 500 raised when a stage of the pipeline
  raises.
\<close>

theorem prediction_result:
  assumes run: "serve lib (startup lib t0) reqs = (resps, st)"
    and loaded: "model_loaded st"
    and proba: "probabilities_in_range lib d st"
  shows "case fst (predict_income lib clk d st) of
           Inr r \<Rightarrow>
             prediction r \<in> {''>50K'', ''<=50K''} \<and>
             (\<exists>X P. process_data lib d cat_features False (encoder st) = Inr X \<and>
                    predict_proba lib (model st) X = Inr P \<and>
                    confidence r = Max (set (concat P))) \<and>
             0 \<le> confidence r \<and> confidence r \<le> 1
         | Inl e \<Rightarrow> status_code e = 500"
proof (cases rule: predict_income_cases [where st = st and lib = lib and clk = clk and d = d])
  case unavailable
  with loaded show ?thesis by simp
next
  case (failed e ws)
  then show ?thesis by simp
next
  case (ok X P l c counts)
  from serve_run [OF run] have keys: "set (map fst (model_predictions st)) = {''>50K'', ''<=50K''}"
    by (simp add: startup_counters)
  from ok(5) have "dict_incr (model_predictions st) l \<noteq> None" by simp
  then have "l \<in> set (map fst (model_predictions st))"
    by (simp only: dict_incr_None_iff not_not)
  with keys have label: "l \<in> {''>50K'', ''<=50K''}" by simp
  from np_max_Inr [OF ok(4)] have nonempty: "concat P \<noteq> []" and c: "c = Max (set (concat P))"
    by simp_all
  from nonempty have "Max (set (concat P)) \<in> set (concat P)"
    by (intro Max_in) simp_all
  moreover from proba ok(2,3) have "list_all (\<lambda>p. 0 \<le> p \<and> p \<le> 1) (concat P)"
    by (simp add: probabilities_in_range_def)
  ultimately have range: "0 \<le> c \<and> c \<le> 1"
    unfolding c list_all_iff by blast
  from ok(2,3) c have "\<exists>X P. process_data lib d cat_features False (encoder st) = Inr X \<and>
      predict_proba lib (model st) X = Inr P \<and> c = Max (set (concat P))"
    by blast
  with ok(6) label range show ?thesis by simp
qed

text \<open>The claim at the stand-in classifier, where the prediction returns \<open>>50K\<close> with
  confidence \<open>3/4\<close>.\<close>

theorem prediction_result_witness:
  "serve stub_ml (startup stub_ml 0) [] = ([], startup stub_ml 0) \<and>
   model_loaded (startup stub_ml 0) \<and>
   probabilities_in_range stub_ml example_record (startup stub_ml 0) \<and>
   (case fst (predict_income stub_ml noon example_record (startup stub_ml 0)) of
      Inr r \<Rightarrow>
        prediction r \<in> {''>50K'', ''<=50K''} \<and>
        (\<exists>X P. process_data stub_ml example_record cat_features False
                  (encoder (startup stub_ml 0)) = Inr X \<and>
               predict_proba stub_ml (model (startup stub_ml 0)) X = Inr P \<and>
               confidence r = Max (set (concat P))) \<and>
        0 \<le> confidence r \<and> confidence r \<le> 1
    | Inl e \<Rightarrow> status_code e = 500) \<and>
   map_sum status_code (\<lambda>r. (prediction r, confidence r))
     (fst (predict_income stub_ml noon example_record (startup stub_ml 0))) =
     Inr (''>50K'', 3 / 4)"
proof -
  have run: "serve stub_ml (startup stub_ml 0) [] = ([], startup stub_ml 0)"
    by simp
  have loaded: "model_loaded (startup stub_ml 0)"
    by (simp add: startup_def globals_def stub_ml_def)
  have proba: "probabilities_in_range stub_ml example_record (startup stub_ml 0)"
    by (simp add: probabilities_in_range_def stub_ml_def)
  have val: "map_sum status_code (\<lambda>r. (prediction r, confidence r))
     (fst (predict_income stub_ml noon example_record (startup stub_ml 0))) =
     Inr (''>50K'', 3 / 4)"
    by (simp add: predict_income_def predict_try_def startup_def globals_def stub_ml_def
        logged_def np_max_def)
  from prediction_result [OF run loaded proba, where clk = noon] run loaded proba val
  show ?thesis by blast
qed

subsection \<open>The legacy route\<close>

text \<open>
  Claim C4.  From the same state and for the same valid body, \<open>POST /data/\<close> and
  \<open>POST /v1/predict\<close> answer with the same status and leave the same state; when
  \<open>/v1/predict\<close> answers 200 with a label, \<open>/data/\<close> answers 200 with the body
  \<open>{"result": label}\<close> for that very label.
\<close>

theorem legacy_returns_same_label:
  "status (fst (log_requests lib clk (PostData (Valid d)) st)) =
     status (fst (log_requests lib clk (PostPredict (Valid d)) st)) \<and>
   snd (log_requests lib clk (PostData (Valid d)) st) =
     snd (log_requests lib clk (PostPredict (Valid d)) st) \<and>
   (status (fst (log_requests lib clk (PostPredict (Valid d)) st)) = 200 \<longrightarrow>
      (\<exists>label.
         response_field ''prediction'' (fst (log_requests lib clk (PostPredict (Valid d)) st)) =
           Some (JStr label) \<and>
         fst (log_requests lib clk (PostData (Valid d)) st) =
           JSONResponse 200 (JObj [(''result'', JStr label)])))"
proof (cases rule: predict_income_cases
    [where st = "st\<lparr>request_count := request_count st + 1\<rparr>" and lib = lib and clk = clk and d = d])
  case unavailable
  then show ?thesis
    by (simp add: log_requests_def legacy_inference_def http_exception_response_def)
next
  case (failed e ws)
  then show ?thesis
    by (simp add: log_requests_def legacy_inference_def http_exception_response_def)
next
  case (ok X P l c counts)
  then show ?thesis
    by (simp add: log_requests_def legacy_inference_def jsonable_prediction_def
        response_field_def)
qed

text \<open>The claim at the stand-in classifier: both routes answer 200 with \<open>>50K\<close>.\<close>

theorem legacy_returns_same_label_witness:
  "status (fst (log_requests stub_ml noon (PostPredict (Valid example_record))
      (startup stub_ml 0))) = 200 \<and>
   response_field ''prediction'' (fst (log_requests stub_ml noon
      (PostPredict (Valid example_record)) (startup stub_ml 0))) = Some (JStr ''>50K'') \<and>
   fst (log_requests stub_ml noon (PostData (Valid example_record)) (startup stub_ml 0)) =
     JSONResponse 200 (JObj [(''result'', JStr ''>50K'')])"
proof -
  have run: "fst (log_requests stub_ml noon (PostPredict (Valid example_record))
      (startup stub_ml 0)) =
      JSONResponse 200 (JObj
        [(''prediction'', JStr ''>50K''), (''confidence'', JFloat (3 / 4)),
         (''model_version'', JStr ''v1.0.0''),
         (''timestamp'', JStr ''2024-01-01T12:00:00Z'')])"
    by (simp add: log_requests_def predict_income_def predict_try_def startup_def globals_def
        stub_ml_def logged_def np_max_def jsonable_prediction_def noon_def)
  then have ok: "status (fst (log_requests stub_ml noon (PostPredict (Valid example_record))
      (startup stub_ml 0))) = 200"
    and lab: "response_field ''prediction'' (fst (log_requests stub_ml noon
      (PostPredict (Valid example_record)) (startup stub_ml 0))) = Some (JStr ''>50K'')"
    by (simp_all add: response_field_def)
  from legacy_returns_same_label [where lib = stub_ml and clk = noon and d = example_record
      and st = "startup stub_ml 0"] ok lab
  show ?thesis by auto
qed

text \<open>
  Claim C9.  When \<open>POST /v1/predict\<close> fails for a valid body, its status is 503 or 500
  and its body is \<open>{"detail": message}\<close>; \<open>POST /data/\<close> for the same body from the
  same state answers with the same status and the body \<open>{"error": message}\<close>, the same
  message under the single key \<open>error\<close>.
\<close>

theorem legacy_error_body:
  assumes "status (fst (log_requests lib clk (PostPredict (Valid d)) st)) \<noteq> 200"
  shows "\<exists>code message.
           (code = 503 \<or> code = 500) \<and>
           fst (log_requests lib clk (PostPredict (Valid d)) st) =
             JSONResponse code (JObj [(''detail'', JStr message)]) \<and>
           fst (log_requests lib clk (PostData (Valid d)) st) =
             JSONResponse code (JObj [(''error'', JStr message)])"
proof (cases rule: predict_income_cases
    [where st = "st\<lparr>request_count := request_count st + 1\<rparr>" and lib = lib and clk = clk and d = d])
  case unavailable
  then show ?thesis
    by (simp add: log_requests_def legacy_inference_def http_exception_response_def)
next
  case (failed e ws)
  then show ?thesis
    by (simp add: log_requests_def legacy_inference_def http_exception_response_def)
next
  case (ok X P l c counts)
  with assms show ?thesis
    by (simp add: log_requests_def)
qed

text \<open>The claim where the model file is missing (503).\<close>

theorem legacy_error_body_witness:
  "status (fst (log_requests missing_model_ml noon (PostPredict (Valid example_record))
      (startup missing_model_ml 0))) \<noteq> 200 \<and>
   (\<exists>code message.
      (code = 503 \<or> code = 500) \<and>
      fst (log_requests missing_model_ml noon (PostPredict (Valid example_record))
          (startup missing_model_ml 0)) =
        JSONResponse code (JObj [(''detail'', JStr message)]) \<and>
      fst (log_requests missing_model_ml noon (PostData (Valid example_record))
          (startup missing_model_ml 0)) =
        JSONResponse code (JObj [(''error'', JStr message)])) \<and>
   fst (log_requests missing_model_ml noon (PostData (Valid example_record))
       (startup missing_model_ml 0)) =
     JSONResponse 503 (JObj [(''error'', JStr ''Model not available'')])"
proof -
  have down: "\<not> model_loaded (startup missing_model_ml 0)"
    by (simp add: startup_def globals_def missing_model_ml_def stub_ml_def model_path_def
        encoder_path_def)
  then have bad: "status (fst (log_requests missing_model_ml noon
      (PostPredict (Valid example_record)) (startup missing_model_ml 0))) \<noteq> 200"
    by (simp add: log_requests_def predict_income_def http_exception_response_def)
  from down have legacy: "fst (log_requests missing_model_ml noon
      (PostData (Valid example_record)) (startup missing_model_ml 0)) =
     JSONResponse 503 (JObj [(''error'', JStr ''Model not available'')])"
    by (simp add: log_requests_def predict_income_def legacy_inference_def)
  from legacy_error_body [OF bad] bad legacy show ?thesis by blast
qed

text \<open>With a classifier that raises, both routes answer 500 and carry the same message
  under their two keys.\<close>

lemma legacy_error_body_on_pipeline_failure:
  "fst (log_requests failing_ml noon (PostPredict (Valid example_record)) (startup failing_ml 0)) =
     JSONResponse 500 (JObj [(''detail'', JStr ''Prediction failed: shape mismatch'')]) \<and>
   fst (log_requests failing_ml noon (PostData (Valid example_record)) (startup failing_ml 0)) =
     JSONResponse 500 (JObj [(''error'', JStr ''Prediction failed: shape mismatch'')])"
  by (simp add: log_requests_def predict_income_def predict_try_def legacy_inference_def
      http_exception_response_def startup_def globals_def failing_ml_def stub_ml_def
      logged_def)

subsection \<open>Determinism\<close>

lemma dict_incr_same_keys:
  assumes "map fst d1 = map fst d2"
  shows "(dict_incr d1 k = None) = (dict_incr d2 k = None)"
  using assms by (simp add: dict_incr_None_iff)

lemma predict_try_determined:
  assumes "encoder s1 = encoder s2" and "model s1 = model s2"
    and "map fst (model_predictions s1) = map fst (model_predictions s2)"
  shows "map_sum str_exn (\<lambda>r. (prediction r, confidence r)) (fst (predict_try lib c1 d s1)) =
         map_sum str_exn (\<lambda>r. (prediction r, confidence r)) (fst (predict_try lib c2 d s2))"
proof -
  have keys: "(dict_incr (model_predictions s1) l = None) =
      (dict_incr (model_predictions s2) l = None)" for l
    using assms(3) by (rule dict_incr_same_keys)
  show ?thesis
    unfolding predict_try_def Let_def logged_def assms(1,2)
    using keys by (auto split: sum.split option.split) (metis option.distinct(1))+
qed

lemma predict_view_determined:
  assumes "model_loaded s1 = model_loaded s2" and "encoder s1 = encoder s2"
    and "model s1 = model s2"
    and "map fst (model_predictions s1) = map fst (model_predictions s2)"
  shows "predict_view (fst (log_requests lib c1 (PostPredict (Valid d)) s1)) =
         predict_view (fst (log_requests lib c2 (PostPredict (Valid d)) s2))"
proof -
  let ?t1 = "s1\<lparr>request_count := request_count s1 + 1\<rparr>"
  let ?t2 = "s2\<lparr>request_count := request_count s2 + 1\<rparr>"
  let ?v = "map_sum str_exn (\<lambda>r. (prediction r, confidence r))"
  have same: "?v (fst (predict_try lib c1 d ?t1)) = ?v (fst (predict_try lib c2 d ?t2))"
    using assms by (intro predict_try_determined) simp_all
  obtain r1 u1 where p1: "predict_try lib c1 d ?t1 = (r1, u1)"
    by (cases "predict_try lib c1 d ?t1")
  obtain r2 u2 where p2: "predict_try lib c2 d ?t2 = (r2, u2)"
    by (cases "predict_try lib c2 d ?t2")
  from same p1 p2 have v: "?v r1 = ?v r2" by simp
  show ?thesis
  proof (cases "model_loaded s1")
    case False
    with assms(1) show ?thesis
      by (simp add: log_requests_def predict_income_def)
  next
    case True
    with assms(1) have loaded: "model_loaded ?t1" "model_loaded ?t2" by simp_all
    from v show ?thesis
      by (cases r1; cases r2)
         (simp_all add: log_requests_def predict_income_def loaded p1 p2 predict_view_def
            response_field_def http_exception_response_def jsonable_prediction_def)
  qed
qed

text \<open>
  Claim C6.  From any state of the service, calling \<open>POST /v1/predict\<close> any number of
  times (five, say) with the same record, at whatever times, gives every time the status,
  the label and the confidence of the first call.
\<close>

theorem repeated_prediction_is_deterministic:
  "map predict_view (fst (serve lib st (map (\<lambda>clk. (clk, PostPredict (Valid d))) clks))) =
     replicate (length clks) (predict_view (fst (log_requests lib clk0 (PostPredict (Valid d)) st)))"
proof (induction clks arbitrary: st)
  case Nil
  show ?case by simp
next
  case (Cons c clks)
  obtain resp st1 where first: "log_requests lib c (PostPredict (Valid d)) st = (resp, st1)"
    by (cases "log_requests lib c (PostPredict (Valid d)) st")
  obtain rest st2 where others:
    "serve lib st1 (map (\<lambda>clk. (clk, PostPredict (Valid d))) clks) = (rest, st2)"
    by (cases "serve lib st1 (map (\<lambda>clk. (clk, PostPredict (Valid d))) clks)")
  note same = log_requests_step(3,4,5,7) [OF first]
  have head: "predict_view resp =
      predict_view (fst (log_requests lib clk0 (PostPredict (Valid d)) st))"
    using predict_view_determined [of st st lib c d clk0] first by simp
  have "predict_view (fst (log_requests lib clk0 (PostPredict (Valid d)) st1)) =
      predict_view (fst (log_requests lib clk0 (PostPredict (Valid d)) st))"
    using same by (intro predict_view_determined) simp_all
  with Cons.IH [of st1] others have tail: "map predict_view rest =
      replicate (length clks)
        (predict_view (fst (log_requests lib clk0 (PostPredict (Valid d)) st)))"
    by simp
  from first others head tail show ?case by simp
qed

section \<open>Properties of the monitoring client\<close>

subsection \<open>The bounded history\<close>

lemma last_n_bound: "length (last_n n xs) \<le> n"
  by (simp add: last_n_def)

lemma last_n_append: "last_n n (last_n n xs @ ys) = last_n n (xs @ ys)"
  by (cases "length xs \<le> n") (simp_all add: last_n_def add.commute)

lemma cycle_metrics_returns: "\<exists>metrics. cycle_metrics ob = Inr metrics"
  by (simp add: cycle_metrics_def run_load_test_def Let_def)

lemma collect_metrics_history:
  assumes "cycle_metrics ob = Inr metrics"
  shows "collect_metrics self ob =
     Inr (metrics, self\<lparr>metrics_history := last_n 100 (metrics_history self @ [metrics])\<rparr>)"
  using assms by (simp add: collect_metrics_def Let_def last_n_def)

lemma collect_cycles_history:
  "\<exists>self' ms. collect_cycles self obs = Inr self' \<and>
      map cycle_metrics obs = map Inr ms \<and>
      metrics_history self' =
        (if obs = [] then metrics_history self else last_n 100 (metrics_history self @ ms))"
proof (induction obs arbitrary: self)
  case Nil
  show ?case by simp
next
  case (Cons ob obs)
  obtain m where m: "cycle_metrics ob = Inr m"
    using cycle_metrics_returns by blast
  let ?self1 = "self\<lparr>metrics_history := last_n 100 (metrics_history self @ [m])\<rparr>"
  from Cons.IH [of ?self1] obtain self' ms where
    run: "collect_cycles ?self1 obs = Inr self'" and
    ms: "map cycle_metrics obs = map Inr ms" and
    hist: "metrics_history self' =
      (if obs = [] then metrics_history ?self1 else last_n 100 (metrics_history ?self1 @ ms))"
    by blast
  have "collect_cycles self (ob # obs) = Inr self'"
    using collect_metrics_history [OF m] run by simp
  moreover have "map cycle_metrics (ob # obs) = map Inr (m # ms)"
    using m ms by simp
  moreover have "metrics_history self' = last_n 100 (metrics_history self @ m # ms)"
  proof (cases "obs = []")
    case True
    with ms hist show ?thesis by simp
  next
    case False
    with hist have "metrics_history self' =
        last_n 100 (last_n 100 (metrics_history self @ [m]) @ ms)"
      by simp
    then show ?thesis by (simp add: last_n_append)
  qed
  ultimately show ?case by (intro exI [of _ self'] exI [of _ "m # ms"]) simp
qed

text \<open>
  Claim C8.  Starting with an empty history and collecting metrics for any number of
  cycles: every cycle returns, the history holds at most 100 entries, and it is the list
  of all the metrics collected, in the order collected, without its oldest entries beyond
  the last 100.
\<close>

theorem history_is_bounded_fifo:
  "\<exists>self' ms. collect_cycles (init_monitor url ival) obs = Inr self' \<and>
      map cycle_metrics obs = map Inr ms \<and>
      length (metrics_history self') \<le> 100 \<and>
      metrics_history self' = drop (length ms - 100) ms"
proof -
  obtain self' ms where
    run: "collect_cycles (init_monitor url ival) obs = Inr self'" and
    ms: "map cycle_metrics obs = map Inr ms" and
    hist: "metrics_history self' =
      (if obs = [] then metrics_history (init_monitor url ival)
       else last_n 100 (metrics_history (init_monitor url ival) @ ms))"
    using collect_cycles_history [of "init_monitor url ival" obs] by blast
  from ms have "length ms = length obs"
    by (metis length_map)
  with hist have h: "metrics_history self' = last_n 100 ms"
    by (cases "obs = []") (simp_all add: init_monitor_def last_n_def)
  then have "length (metrics_history self') \<le> 100"
    by (simp add: last_n_bound)
  with run ms h show ?thesis
    unfolding last_n_def by blast
qed

subsection \<open>A cycle during which the service is unreachable\<close>

lemma check_alerts_on_failed_health_call:
  assumes "cycle_metrics ob = Inr metrics" and "health_call ob = RequestException msg"
  shows "check_alerts (JObj metrics) = Inl (not_supported ''>'' JNull)"
  using assms
  by (auto simp: cycle_metrics_def run_load_test_def Let_def check_alerts_def dict_get_def
      py_gt_def)


lemma status_line_returns:
  assumes "cycle_metrics ob = Inr metrics"
  shows "\<exists>line. status_line (JObj metrics) = Inr line"
proof -
  have h: "\<exists>v. map_of (check_health c) ''status'' = Some v" for c
    by (cases c) simp_all
  have p: "\<exists>v. map_of (check_prediction_performance c) ''status'' = Some v" for c
    by (cases c) simp_all
  obtain hv where hv: "map_of (check_health (health_call ob)) ''status'' = Some hv"
    using h by blast
  obtain pv where pv:
    "map_of (check_prediction_performance (prediction_call ob)) ''status'' = Some pv"
    using p by blast
  from assms hv pv show ?thesis
    by (auto simp: cycle_metrics_def run_load_test_def Let_def status_line_def)
qed

text \<open>Whenever the health call of a cycle fails with a \<open>RequestException\<close>, the loop ends
  in that cycle, by the \<open>TypeError\<close> that comparing \<open>None\<close> with \<open>5.0\<close> raises in
  \<open>check_alerts\<close>; the cycles that would follow do not run.\<close>

lemma monitoring_loop_failed_health_call:
  assumes "running self" and "health_call ob = RequestException msg"
  shows "\<exists>metrics. cycle_metrics ob = Inr metrics \<and>
     monitoring_loop self (ob # obs) =
       (Uncaught (not_supported ''>'' JNull), 0,
        self\<lparr>metrics_history := last_n 100 (metrics_history self @ [metrics])\<rparr>)"
proof -
  obtain metrics where m: "cycle_metrics ob = Inr metrics"
    using cycle_metrics_returns by blast
  obtain line where l: "status_line (JObj metrics) = Inr line"
    using status_line_returns [OF m] by blast
  from assms(1) m l collect_metrics_history [OF m, of self]
    check_alerts_on_failed_health_call [OF m assms(2)]
  show ?thesis by simp
qed

text \<open>
  Claim C7, on the code.  The monitor is started; during the first cycle the service
  cannot be reached, during the second it would answer.  The first cycle is recorded in
  the history, then \<open>check_alerts\<close> raises \<open>TypeError\<close> (\<open>'>' not supported between
  instances of 'NoneType' and 'float'\<close>), which \<open>start_monitoring\<close> does not catch: no cycle
  runs to its end, the second cycle never starts, and the monitor ends after saving the
  one entry.
\<close>

theorem monitor_ends_when_service_unreachable:
  "case start_monitoring (init_monitor ''http://localhost:8000'' 60) [server_down, server_up] of
     (how, cycles, saved, self') \<Rightarrow>
       how = Uncaught (not_supported ''>'' JNull) \<and> cycles = 0 \<and> length saved = 1 \<and>
       \<not> running self'"
proof -
  let ?self = "(init_monitor ''http://localhost:8000'' 60)\<lparr>running := True\<rparr>"
  have "running ?self" by simp
  moreover have "health_call server_down = RequestException ''Connection refused''"
    by (simp add: server_down_def)
  ultimately obtain metrics where
    "monitoring_loop ?self [server_down, server_up] =
       (Uncaught (not_supported ''>'' JNull), 0,
        ?self\<lparr>metrics_history := last_n 100 (metrics_history ?self @ [metrics])\<rparr>)"
    using monitoring_loop_failed_health_call by blast
  then show ?thesis
    by (simp add: start_monitoring_def init_monitor_def last_n_def)
qed

text \<open>While the service answers, the loop goes on until it is interrupted.\<close>

lemma monitor_runs_while_service_answers:
  "case start_monitoring (init_monitor ''http://localhost:8000'' 60) [server_up, server_up] of
     (how, cycles, saved, self') \<Rightarrow> how = Interrupted \<and> cycles = 2 \<and> length saved = 2"
  by (simp add: start_monitoring_def init_monitor_def last_n_def collect_metrics_def
      cycle_metrics_def run_load_test_def server_up_def Let_def status_line_def
      check_alerts_def dict_get_def py_gt_def py_lt_def response_times_def
      List.map_filter_def optional_def rstrip_slash_def)

lemma not_supported_message:
  "str_exn (not_supported ''>'' JNull) =
     [CHR 0x27] @ ''>'' @ [CHR 0x27] @ '' not supported between instances of '' @
     [CHR 0x27] @ ''NoneType'' @ [CHR 0x27] @ '' and '' @ [CHR 0x27] @ ''float'' @ [CHR 0x27]"
  by (simp add: not_supported_def quoted_def)

end
